theory Spec2Isabelle
  imports Main
begin

section \<open>Strings and numbers of the host language\<close>

text \<open>
  The checker is JavaScript running in a page. A JavaScript string is a sequence of
  UTF-16 code units, modelled as a list of numbers; \<open>js\<close> embeds a literal of the
  program text, which is ASCII, code unit by code unit.
\<close>

type_synonym jsstring = "nat list"

definition js :: "string \<Rightarrow> jsstring" where
  [simp]: "js s = map of_char s"

text \<open>
  The white space that \<open>String.prototype.trim\<close> and \<open>parseInt\<close> strip is the
  language's \<open>WhiteSpace\<close> and \<open>LineTerminator\<close>: U+0009 to U+000D, U+0020, U+00A0,
  U+1680, U+2000 to U+200A, U+2028, U+2029, U+202F, U+205F, U+3000 and U+FEFF. Each
  is one code unit. (U+180E, a space separator until Unicode 6.3, is not white space
  in the engines of today and is not counted.)
\<close>

definition is_space :: "nat \<Rightarrow> bool" where
  "is_space c =
     ((9 \<le> c \<and> c \<le> 13) \<or> c = 32 \<or> c = 160 \<or> c = 5760 \<or> (8192 \<le> c \<and> c \<le> 8202) \<or>
      c = 8232 \<or> c = 8233 \<or> c = 8239 \<or> c = 8287 \<or> c = 12288 \<or> c = 65279)"

definition trim :: "jsstring \<Rightarrow> jsstring" where
  "trim s = rev (dropWhile is_space (rev (dropWhile is_space s)))"

text \<open>
  \<open>toUpperCase\<close> and \<open>toLowerCase\<close> are the engine's Unicode case mappings. The model
  does not define them: the page carries them, and every property below holds
  whatever they are. The sample pages use the mappings of the ASCII letters.
\<close>

record engine =
  toUpperCase :: "jsstring \<Rightarrow> jsstring"
  toLowerCase :: "jsstring \<Rightarrow> jsstring"

definition ascii_upper :: "jsstring \<Rightarrow> jsstring" where
  "ascii_upper s = map (\<lambda>n. if 97 \<le> n \<and> n \<le> 122 then n - 32 else n) s"

definition ascii_lower :: "jsstring \<Rightarrow> jsstring" where
  "ascii_lower s = map (\<lambda>n. if 65 \<le> n \<and> n \<le> 90 then n + 32 else n) s"

definition ascii_engine :: engine where
  "ascii_engine = \<lparr>toUpperCase = ascii_upper, toLowerCase = ascii_lower\<rparr>"

text \<open>
  A JavaScript number as far as this program produces one: the result of \<open>parseInt\<close>
  is either \<open>NaN\<close> or an integer (taken here as a mathematical integer; the rounding of
  integers beyond \<open>2^53\<close> is not modelled).
\<close>

datatype jsnum = NaN | Num int

definition digit_val :: "nat \<Rightarrow> nat \<Rightarrow> nat option" where
  "digit_val radix n =
     (let v = (if 48 \<le> n \<and> n \<le> 57 then Some (n - 48)
               else if 97 \<le> n \<and> n \<le> 122 then Some (n - 87)
               else if 65 \<le> n \<and> n \<le> 90 then Some (n - 55)
               else None)
      in case v of None \<Rightarrow> None | Some d \<Rightarrow> if d < radix then Some d else None)"

text \<open>
  The longest prefix of digits of the radix, read as a number; \<open>None\<close> when the prefix
  is empty.
\<close>

fun parse_digits :: "nat \<Rightarrow> jsstring \<Rightarrow> nat option \<Rightarrow> nat option" where
  "parse_digits radix [] acc = acc"
| "parse_digits radix (c # cs) acc =
     (case digit_val radix c of
        None \<Rightarrow> acc
      | Some d \<Rightarrow> parse_digits radix cs (Some ((case acc of None \<Rightarrow> 0 | Some a \<Rightarrow> a) * radix + d)))"

text \<open>
  \<open>parseInt(string)\<close> with no radix argument: leading white space is skipped, one sign
  is read (\<open>-\<close> is 45, \<open>+\<close> is 43), a \<open>0x\<close> or \<open>0X\<close> prefix (48, then 120 or 88)
  selects radix 16, then the longest digit prefix is the value; with no digit the result
  is \<open>NaN\<close>.
\<close>

definition parseInt :: "jsstring \<Rightarrow> jsnum" where
  "parseInt str =
     (let s = dropWhile is_space str;
          neg = (case s of [] \<Rightarrow> False | c # cs \<Rightarrow> c = 45);
          s1 = (case s of [] \<Rightarrow> s | c # cs \<Rightarrow> if c = 43 \<or> c = 45 then cs else s);
          hex = (case s1 of a # b # cs \<Rightarrow> a = 48 \<and> (b = 120 \<or> b = 88) | _ \<Rightarrow> False);
          radix = (if hex then 16 else 10);
          s2 = (if hex then drop 2 s1 else s1)
      in case parse_digits radix s2 None of
           None \<Rightarrow> NaN
         | Some n \<Rightarrow> Num (if neg then - int n else int n))"

text \<open>
  \<open>parseInt(el?.value || d)\<close>: a missing element gives \<open>undefined\<close> and an empty value
  is falsy, so both fall through to the number \<open>d\<close>, which \<open>parseInt\<close> reads back
  from its decimal string. Any other value is parsed as it stands.
\<close>

definition parseInt_or :: "int \<Rightarrow> jsstring option \<Rightarrow> jsnum" where
  "parseInt_or d v =
     (case v of
        None \<Rightarrow> Num d
      | Some s \<Rightarrow> if s = [] then Num d else parseInt s)"

section \<open>The page: rows, warning surfaces, timers and requests\<close>

text \<open>
  A warning as the service sends it. \<open>severity\<close> is \<open>None\<close> when the field is missing
  or is not a string; the optional fields are \<open>None\<close> when missing.
\<close>

record warning =
  severity :: "jsstring option"
  icon :: jsstring
  title :: jsstring
  message :: jsstring
  recommendation :: "jsstring option"
  category :: "jsstring option"

text \<open>
  One rendered \<open>.live-warning\<close> block: the class suffix taken from the severity, the
  header (icon, title, upper-cased severity badge), the body, and the index that sets
  the delay of its slide-in animation.
\<close>

record block =
  severity_class :: jsstring
  block_icon :: jsstring
  block_title :: jsstring
  badge :: jsstring
  block_message :: jsstring
  block_recommendation :: "jsstring option"
  block_category :: "jsstring option"
  anim_index :: nat

datatype content =
    Blank
  | Loader
  | Safe_notice
  | Error_notice string
  | Blocks "block list"

datatype display = Display_initial | Display_none | Display_block

record container =
  html :: content
  shown :: display

text \<open>
  A \<open>.medication-row\<close>: the value of its medication-name input and of its
  doses-per-day input (\<open>None\<close> when the row has no such input), its
  \<open>.live-warning-container\<close> once one has been created, and its class list.
\<close>

record med_row =
  name_value :: "jsstring option"
  doses_value :: "jsstring option"
  surface :: "container option"
  class_list :: "jsstring list"

record medication =
  med_name :: jsstring
  doses_per_day :: jsnum

section \<open>Medication snapshot reader\<close>

definition row_medication :: "med_row \<Rightarrow> medication list" where
  "row_medication r =
     (case name_value r of
        None \<Rightarrow> []
      | Some v \<Rightarrow>
          if trim v \<noteq> []
          then [\<lparr>med_name = trim v, doses_per_day = parseInt_or 1 (doses_value r)\<rparr>]
          else [])"

definition getCurrentMedications :: "med_row list \<Rightarrow> medication list" where
  "getCurrentMedications rs = concat (map row_medication rs)"

text \<open>
  The age input is the element with id \<open>age\<close> or else the input named \<open>age\<close>; each is
  given by its value when it exists.
\<close>

definition getPatientAge :: "jsstring option \<Rightarrow> jsstring option \<Rightarrow> jsnum" where
  "getPatientAge by_id by_name =
     parseInt_or 65 (case by_id of Some v \<Rightarrow> Some v | None \<Rightarrow> by_name)"

section \<open>Response projector\<close>

datatype js_error = Fetch_failed | Syntax_error | Type_error

definition optional_text :: "jsstring option \<Rightarrow> jsstring option" where
  \<comment> \<open>\<open>w.field ? ... : ''\<close>: a missing or empty field renders nothing\<close>
  "optional_text v = (case v of None \<Rightarrow> None | Some s \<Rightarrow> if s = [] then None else Some s)"

definition block_of :: "(jsstring \<Rightarrow> jsstring) \<Rightarrow> jsstring \<Rightarrow> warning \<Rightarrow> nat \<Rightarrow> block" where
  "block_of up sev w k =
     \<lparr>severity_class = (js ''warning-'') @ sev,
      block_icon = icon w,
      block_title = title w,
      badge = up sev,
      block_message = message w,
      block_recommendation = optional_text (recommendation w),
      block_category = optional_text (category w),
      anim_index = k\<rparr>"

text \<open>
  The template of one warning calls \<open>warning.severity.toUpperCase()\<close>, which throws a
  \<open>TypeError\<close> when the severity is missing or is not a string. \<open>up\<close> is the
  engine's \<open>toUpperCase\<close>.
\<close>

definition render_warning :: "(jsstring \<Rightarrow> jsstring) \<Rightarrow> warning \<Rightarrow> nat \<Rightarrow> js_error + block" where
  "render_warning up w k =
     (case severity w of None \<Rightarrow> Inl Type_error | Some sev \<Rightarrow> Inr (block_of up sev w k))"

fun render_all :: "(jsstring \<Rightarrow> jsstring) \<Rightarrow> warning list \<Rightarrow> nat \<Rightarrow> js_error + block list" where
  "render_all up [] k = Inr []"
| "render_all up (w # ws) k =
     (case render_warning up w k of
        Inl e \<Rightarrow> Inl e
      | Inr b \<Rightarrow> (case render_all up ws (Suc k) of Inl e \<Rightarrow> Inl e | Inr bs \<Rightarrow> Inr (b # bs)))"

definition no_warnings :: "warning list option \<Rightarrow> bool" where
  \<comment> \<open>\<open>!warnings || warnings.length === 0\<close>\<close>
  "no_warnings ws = (case ws of None \<Rightarrow> True | Some l \<Rightarrow> l = [])"

definition warnings_of :: "warning list option \<Rightarrow> warning list" where
  "warnings_of ws = (case ws of None \<Rightarrow> [] | Some l \<Rightarrow> l)"

text \<open>
  \<open>displayWarnings(container, warnings, isSafe)\<close>. The result is the container after
  the call and whether the call scheduled the 2 s timer that hides it; \<open>Inl\<close> is an
  exception thrown before the container has been touched.
\<close>

definition displayWarnings :: "(jsstring \<Rightarrow> jsstring) \<Rightarrow> container \<Rightarrow> warning list option \<Rightarrow> bool \<Rightarrow> js_error + (container \<times> bool)" where
  "displayWarnings up c ws isSafe =
     (if no_warnings ws then
        (if isSafe then Inr (c\<lparr>html := Safe_notice\<rparr>, True)
         else Inr (c\<lparr>shown := Display_none\<rparr>, False))
      else
        (case render_all up (warnings_of ws) 0 of
           Inl e \<Rightarrow> Inl e
         | Inr bs \<Rightarrow> Inr (c\<lparr>html := Blocks bs, shown := Display_block\<rparr>, False)))"

definition severity_classes :: "jsstring list" where
  "severity_classes = [js ''has-high-warning'', js ''has-moderate-warning'', js ''has-low-warning'', js ''is-safe'']"

definition class_remove :: "jsstring list \<Rightarrow> jsstring list \<Rightarrow> jsstring list" where
  "class_remove names cl = filter (\<lambda>c. c \<notin> set names) cl"

definition class_add :: "jsstring \<Rightarrow> jsstring list \<Rightarrow> jsstring list" where
  "class_add c cl = (if c \<in> set cl then cl else cl @ [c])"

definition updateRowStyling :: "med_row \<Rightarrow> warning list option \<Rightarrow> med_row" where
  "updateRowStyling r ws =
     (let cl = class_remove severity_classes (class_list r) in
      if no_warnings ws then r\<lparr>class_list := class_add (js ''is-safe'') cl\<rparr>
      else
        let hasHigh = list_ex (\<lambda>w. severity w = Some (js ''high'')) (warnings_of ws);
            hasModerate = list_ex (\<lambda>w. severity w = Some (js ''moderate'')) (warnings_of ws)
        in if hasHigh then r\<lparr>class_list := class_add (js ''has-high-warning'') cl\<rparr>
           else if hasModerate then r\<lparr>class_list := class_add (js ''has-moderate-warning'') cl\<rparr>
           else r\<lparr>class_list := class_add (js ''has-low-warning'') cl\<rparr>)"

text \<open>
  What comes back for a request: \<open>fetch\<close> rejects, the body is not JSON, the body is
  the JSON \<open>null\<close>, or the body is an object. Of an object the code reads the
  truthiness of \<open>success\<close> and of \<open>safe\<close>, and \<open>warnings\<close>, which is \<open>None\<close> when the
  field is missing or null and an array otherwise.
\<close>

record response =
  success :: bool
  safe :: bool
  warnings :: "warning list option"

datatype outcome = Fetch_rejected | Body_unparseable | Body_null | Body response

text \<open>
  The body of the \<open>try\<close> block from the first \<open>await\<close> on, for the container and the
  row that the call captured: \<open>Inl\<close> is the exception that reaches the \<open>catch\<close>.
\<close>

definition try_block :: "(jsstring \<Rightarrow> jsstring) \<Rightarrow> outcome \<Rightarrow> container \<Rightarrow> med_row \<Rightarrow> js_error + (container \<times> med_row \<times> bool)" where
  "try_block up out c r =
     (case out of
        Fetch_rejected \<Rightarrow> Inl Fetch_failed
      | Body_unparseable \<Rightarrow> Inl Syntax_error
      | Body_null \<Rightarrow> Inl Type_error
      | Body d \<Rightarrow>
          if success d then
            (case displayWarnings up c (warnings d) (safe d) of
               Inl e \<Rightarrow> Inl e
             | Inr (c', hide) \<Rightarrow> Inr (c', updateRowStyling r (warnings d), hide))
          else Inr (c\<lparr>html := Error_notice ''Error checking medication''\<rparr>, r, False))"

text \<open>
  The continuation of \<open>checkMedicationRealtime\<close> when the response arrives, with its
  \<open>catch\<close>. The call created the row's container before it sent the request, so the row
  has one; a row without a container is left as it is.
\<close>

definition on_response :: "(jsstring \<Rightarrow> jsstring) \<Rightarrow> outcome \<Rightarrow> med_row \<Rightarrow> med_row \<times> bool" where
  "on_response up out r =
     (case surface r of
        None \<Rightarrow> (r, False)
      | Some c \<Rightarrow>
          (case try_block up out c r of
             Inl e \<Rightarrow> (r\<lparr>surface := Some (c\<lparr>html := Error_notice ''Unable to check medication''\<rparr>)\<rparr>, False)
           | Inr (c', r', hide) \<Rightarrow> (r'\<lparr>surface := Some c'\<rparr>, hide)))"

section \<open>The event loop of the page\<close>

record request =
  medication_name :: jsstring
  existing_medications :: "medication list"
  age :: jsnum

text \<open>
  A timer runs \<open>Later k i\<close>, the callback \<open>later\<close> that closure \<open>k\<close> of \<open>debounce\<close>
  scheduled for the input of row \<open>i\<close>, or \<open>Hide i\<close>, the callback that hides the
  surface of row \<open>i\<close> two seconds after the safe notice.
\<close>

datatype task = Later nat nat | Hide nat

record timer =
  timer_id :: nat
  due :: nat
  task_of :: task

record flight =
  flight_id :: nat
  flight_row :: nat
  flight_request :: request

text \<open>
  The page: the engine's case mappings, the form, the clock in milliseconds, the pending
  timers, the variable \<open>timeout\<close> of every closure that \<open>debounce\<close> has returned (one
  for each call of \<open>initializeMedicationChecker\<close>, in the order of the calls), and the
  requests in flight. Each call of \<open>initializeMedicationChecker\<close> binds a \<open>blur\<close> and
  an \<open>input\<close> listener to every name input, so every name input has one listener of
  each kind for each closure. \<open>sent\<close> and \<open>checked\<close> record the request bodies posted
  and the rows for which \<open>checkMedicationRealtime\<close> ran; the program does not read them.
\<close>

record page =
  engine :: engine
  rows :: "med_row list"
  age_by_id :: "jsstring option"
  age_by_name :: "jsstring option"
  clock :: nat
  next_timer :: nat
  timers :: "timer list"
  closures :: "nat option list"
  inflight :: "flight list"
  sent :: "request list"
  checked :: "nat list"

definition setTimeout :: "task \<Rightarrow> nat \<Rightarrow> page \<Rightarrow> nat \<times> page" where
  "setTimeout t wait p =
     (next_timer p,
      p\<lparr>timers := timers p @ [\<lparr>timer_id = next_timer p, due = clock p + wait, task_of = t\<rparr>],
        next_timer := Suc (next_timer p)\<rparr>)"

definition clearTimeout :: "nat option \<Rightarrow> page \<Rightarrow> page" where
  "clearTimeout h p =
     (case h of None \<Rightarrow> p | Some k \<Rightarrow> p\<lparr>timers := filter (\<lambda>t. timer_id t \<noteq> k) (timers p)\<rparr>)"

definition fresh_container :: container where
  "fresh_container = \<lparr>html = Blank, shown = Display_initial\<rparr>"

definition valid_input :: "nat \<Rightarrow> page \<Rightarrow> bool" where
  "valid_input i p = (i < length (rows p) \<and> name_value (rows p ! i) \<noteq> None)"

text \<open>
  \<open>checkMedicationRealtime(inputElement)\<close> up to its first \<open>await\<close>, for the name input
  of row \<open>i\<close>. A request is numbered by its place in the order of issue.
\<close>

definition checkMedicationRealtime :: "nat \<Rightarrow> page \<Rightarrow> page" where
  "checkMedicationRealtime i p =
     (if i < length (rows p) then
        (let r = rows p ! i in
         case name_value r of
           None \<Rightarrow> p
         | Some v \<Rightarrow>
             let medicationName = trim v;
                 c = (case surface r of Some c \<Rightarrow> c | None \<Rightarrow> fresh_container);
                 p0 = p\<lparr>checked := checked p @ [i]\<rparr>
             in if medicationName = []
                then p0\<lparr>rows := (rows p)[i := r\<lparr>surface := Some (c\<lparr>html := Blank, shown := Display_none\<rparr>)\<rparr>]\<rparr>
                else
                  let rows1 = (rows p)[i := r\<lparr>surface := Some (c\<lparr>html := Loader, shown := Display_block\<rparr>)\<rparr>];
                      allMeds = getCurrentMedications rows1;
                      existingMeds = filter (\<lambda>m. toLowerCase (engine p) (med_name m)
                                           \<noteq> toLowerCase (engine p) medicationName) allMeds;
                      req = \<lparr>medication_name = medicationName,
                             existing_medications = existingMeds,
                             age = getPatientAge (age_by_id p) (age_by_name p)\<rparr>
                  in p0\<lparr>rows := rows1,
                        inflight := inflight p @ [\<lparr>flight_id = length (sent p), flight_row = i, flight_request = req\<rparr>],
                        sent := sent p @ [req]\<rparr>)
      else p)"

text \<open>
  \<open>debounce(func, wait)\<close> returns the closure \<open>executedFunction\<close> over a variable
  \<open>timeout\<close> of its own; \<open>timeout_of k\<close> reads the variable of closure \<open>k\<close>,
  \<open>debounced wait k i\<close> is one call of closure \<open>k\<close> with the input of row \<open>i\<close>, and
  \<open>later k i\<close> is the callback it scheduled. \<open>debouncedCheck k\<close> is the closure that
  the call number \<open>k\<close> of \<open>initializeMedicationChecker\<close> made.
\<close>

definition timeout_of :: "nat \<Rightarrow> page \<Rightarrow> nat option" where
  "timeout_of k p = (if k < length (closures p) then closures p ! k else None)"

definition debounced :: "nat \<Rightarrow> nat \<Rightarrow> nat \<Rightarrow> page \<Rightarrow> page" where
  "debounced wait k i p =
     (let p1 = clearTimeout (timeout_of k p) p;
          (h, p2) = setTimeout (Later k i) wait p1
      in p2\<lparr>closures := (closures p2)[k := Some h]\<rparr>)"

definition later :: "nat \<Rightarrow> nat \<Rightarrow> page \<Rightarrow> page" where
  "later k i p = checkMedicationRealtime i (clearTimeout (timeout_of k p) p)"

definition debouncedCheck :: "nat \<Rightarrow> nat \<Rightarrow> page \<Rightarrow> page" where
  "debouncedCheck k i p = debounced 800 k i p"

definition hide_surface :: "nat \<Rightarrow> page \<Rightarrow> page" where
  "hide_surface i p =
     (if i < length (rows p)
      then p\<lparr>rows := (rows p)[i := (rows p ! i)\<lparr>surface := map_option (\<lambda>c. c\<lparr>shown := Display_none\<rparr>) (surface (rows p ! i))\<rparr>]\<rparr>
      else p)"

fun run_task :: "task \<Rightarrow> page \<Rightarrow> page" where
  "run_task (Later k i) p = later k i p"
| "run_task (Hide i) p = hide_surface i p"

text \<open>A timer that is still pending fires: it leaves the timer table and its task runs.\<close>

definition fire :: "timer \<Rightarrow> page \<Rightarrow> page" where
  "fire t p =
     (if list_ex (\<lambda>x. timer_id x = timer_id t) (timers p)
      then run_task (task_of t)
             (p\<lparr>timers := filter (\<lambda>x. timer_id x \<noteq> timer_id t) (timers p), clock := max (clock p) (due t)\<rparr>)
      else p)"

text \<open>
  Time passes: the timers due by then fire in the order of their due times, timers due at
  the same time in the order in which they were set.
\<close>

definition advance :: "nat \<Rightarrow> page \<Rightarrow> page" where
  "advance dt p =
     (let t1 = clock p + dt;
          ready = sort_key due (filter (\<lambda>t. due t \<le> t1) (timers p))
      in (foldl (\<lambda>q t. fire t q) p ready)\<lparr>clock := t1\<rparr>)"

definition arrive :: "nat \<Rightarrow> outcome \<Rightarrow> page \<Rightarrow> page" where
  "arrive k out p =
     (case find (\<lambda>f. flight_id f = k) (inflight p) of
        None \<Rightarrow> p
      | Some f \<Rightarrow>
          let i = flight_row f in
          if i < length (rows p) then
            (let (r', hide) = on_response (toUpperCase (engine p)) out (rows p ! i);
                 p1 = p\<lparr>rows := (rows p)[i := r'], inflight := filter (\<lambda>g. flight_id g \<noteq> k) (inflight p)\<rparr>
             in if hide then snd (setTimeout (Hide i) 2000 p1) else p1)
          else p)"

text \<open>
  \<open>initializeMedicationChecker\<close> makes one debounced closure and binds its listeners to
  every name input; \<open>reinitializeMedicationChecker\<close> calls it again.
\<close>

definition initializeMedicationChecker :: "page \<Rightarrow> page" where
  "initializeMedicationChecker p = p\<lparr>closures := closures p @ [None]\<rparr>"

definition reinitializeMedicationChecker :: "page \<Rightarrow> page" where
  "reinitializeMedicationChecker p = initializeMedicationChecker p"

text \<open>
  What happens to the page: the user edits the name input of a row (its value changes and
  its \<open>input\<close> listeners run, in the order in which they were bound), the input loses
  focus (its \<open>blur\<close> listeners run), time passes, the response to a request arrives, the
  user picks a suggestion for the name input of a row (the autocomplete writes the value,
  which fires no \<open>input\<close> event, and calls \<open>MedChecker.check\<close> on the input), or a
  script calls \<open>MedChecker.reinitialize\<close>.
\<close>

datatype event =
    Input nat jsstring
  | Blur nat
  | Wait nat
  | Arrive nat outcome
  | Pick nat jsstring
  | Reinitialize

fun step :: "event \<Rightarrow> page \<Rightarrow> page" where
  "step (Input i v) p =
     (if valid_input i p
      then foldl (\<lambda>q k. debouncedCheck k i q)
             (p\<lparr>rows := (rows p)[i := (rows p ! i)\<lparr>name_value := Some v\<rparr>]\<rparr>)
             [0..<length (closures p)]
      else p)"
| "step (Blur i) p = foldl (\<lambda>q k. checkMedicationRealtime i q) p [0..<length (closures p)]"
| "step (Wait dt) p = advance dt p"
| "step (Arrive k out) p = arrive k out p"
| "step (Pick i v) p =
     (if valid_input i p
      then checkMedicationRealtime i (p\<lparr>rows := (rows p)[i := (rows p ! i)\<lparr>name_value := Some v\<rparr>]\<rparr>)
      else p)"
| "step Reinitialize p = reinitializeMedicationChecker p"


text \<open>
  The page when the script is loaded: no closure yet, nothing pending. The script then
  calls \<open>initializeMedicationChecker\<close> once.
\<close>

definition page_at_load :: "engine \<Rightarrow> med_row list \<Rightarrow> jsstring option \<Rightarrow> jsstring option \<Rightarrow> page" where
  "page_at_load eng rs by_id by_name =
     \<lparr>engine = eng, rows = rs, age_by_id = by_id, age_by_name = by_name, clock = 0,
      next_timer = 1, timers = [], closures = [], inflight = [], sent = [], checked = []\<rparr>"

definition loaded :: "engine \<Rightarrow> med_row list \<Rightarrow> jsstring option \<Rightarrow> jsstring option \<Rightarrow> page" where
  "loaded eng rs by_id by_name = initializeMedicationChecker (page_at_load eng rs by_id by_name)"

section \<open>Observations used to state the properties\<close>

definition rendered_blocks :: "med_row \<Rightarrow> block list" where
  "rendered_blocks r =
     (case surface r of
        None \<Rightarrow> []
      | Some c \<Rightarrow> (case html c of Blocks bs \<Rightarrow> bs | _ \<Rightarrow> []))"

text \<open>
  The order the specification asks of a rendered list: high before moderate before low,
  read off the class of each block.
\<close>

definition severity_rank :: "jsstring \<Rightarrow> nat" where
  "severity_rank cls =
     (if cls = (js ''warning-high'') then 2 else if cls = (js ''warning-moderate'') then 1 else 0)"

definition severity_descending :: "block list \<Rightarrow> bool" where
  "severity_descending bs =
     sorted_wrt (\<lambda>a b. severity_rank (severity_class b) \<le> severity_rank (severity_class a)) bs"

definition severity_text :: "warning \<Rightarrow> jsstring" where
  "severity_text w = (case severity w of None \<Rightarrow> [] | Some s \<Rightarrow> s)"

definition has_severity :: "warning \<Rightarrow> bool" where
  "has_severity w = (severity w \<noteq> None)"

text \<open>
  The outcomes that end in an error notice: a refused one was read and its \<open>success\<close>
  is falsy; the other failed ones throw inside the \<open>try\<close> block.
\<close>

definition refused :: "outcome \<Rightarrow> bool" where
  "refused out = (case out of Body d \<Rightarrow> \<not> success d | _ \<Rightarrow> False)"

definition failed :: "outcome \<Rightarrow> bool" where
  "failed out =
     (case out of
        Body d \<Rightarrow> \<not> success d \<or>
          (\<not> no_warnings (warnings d) \<and> \<not> list_all has_severity (warnings_of (warnings d)))
      | _ \<Rightarrow> True)"

text \<open>
  The rows whose debounced check is pending, in the order of the timer table, and the
  values of the name inputs.
\<close>

definition is_later :: "timer \<Rightarrow> bool" where
  "is_later t = (case task_of t of Later k i \<Rightarrow> True | Hide i \<Rightarrow> False)"


definition input_values :: "page \<Rightarrow> jsstring option list" where
  "input_values p = map name_value (rows p)"


text \<open>
  Two pages agree on everything the debounced check reads or writes: the record of checks
  and requests, the values of the name inputs, the closures' variables, the next timer id
  and the pending debounced checks.
\<close>

definition same_checks :: "page \<Rightarrow> page \<Rightarrow> bool" where
  "same_checks q p =
     (checked q = checked p \<and> sent q = sent p \<and> input_values q = input_values p \<and>
      closures q = closures p \<and> next_timer q = next_timer p \<and>
      filter is_later (timers q) = filter is_later (timers p))"


text \<open>Sample data: a row whose check is in flight, and two warnings.\<close>

definition loading_row :: med_row where
  "loading_row =
     \<lparr>name_value = Some (js ''diphenhydramine''), doses_value = Some (js ''1''),
      surface = Some \<lparr>html = Loader, shown = Display_block\<rparr>,
      class_list = [js ''medication-row'']\<rparr>"

definition sample_high :: warning where
  "sample_high =
     \<lparr>severity = Some (js ''high''), icon = js ''!'', title = js ''Anticholinergic effects'',
      message = js ''Avoid in older adults'', recommendation = Some (js ''Consider an alternative''),
      category = Some (js ''Beers'')\<rparr>"

definition sample_low :: warning where
  "sample_low =
     \<lparr>severity = Some (js ''low''), icon = js ''i'', title = js ''Pill burden'',
      message = js ''Many daily doses'', recommendation = None, category = Some []\<rparr>"





section \<open>Properties\<close>

lemma parseInt_or_missing: "parseInt_or d None = Num d"
  by (simp add: parseInt_or_def)

lemma parseInt_or_empty: "parseInt_or d (Some []) = Num d"
  by (simp add: parseInt_or_def)

text \<open>
  C4. Reading the snapshot should degrade a non-numeric doses-per-day value to 1 and an
  unparseable age to 65. The fallback of the code sits inside the call of \<open>parseInt\<close>,
  so it covers a missing input and an empty value only: one row named \<open>aspirin\<close> whose
  doses field holds \<open>abc\<close> is read with doses \<open>NaN\<close>, and an age field holding \<open>abc\<close>
  is read as \<open>NaN\<close>.
\<close>

theorem c4_invalid_number_read_as_nan:
  "getCurrentMedications
     [\<lparr>name_value = Some (js ''aspirin''), doses_value = Some (js ''abc''), surface = None, class_list = []\<rparr>]
     = [\<lparr>med_name = js ''aspirin'', doses_per_day = NaN\<rparr>]
   \<and> getPatientAge (Some (js ''abc'')) None = NaN"
  by (simp add: getCurrentMedications_def row_medication_def getPatientAge_def parseInt_or_def
      parseInt_def trim_def is_space_def digit_val_def js_def)

subsection \<open>Rendering warnings\<close>

lemma render_all_length:
  "render_all up ws k = Inr bs \<Longrightarrow> length bs = length ws"
  by (induction ws arbitrary: k bs) (auto split: sum.splits)

lemma render_all_nth:
  "render_all up ws k = Inr bs \<Longrightarrow> j < length ws \<Longrightarrow>
   bs ! j = block_of up (severity_text (ws ! j)) (ws ! j) (k + j)"
proof (induction ws arbitrary: k bs j)
  case Nil
  then show ?case by simp
next
  case (Cons w ws)
  from Cons.prems(1) obtain b bs' where
    b: "render_warning up w k = Inr b" and bs': "render_all up ws (Suc k) = Inr bs'" and eq: "bs = b # bs'"
    by (auto split: sum.splits)
  show ?case
  proof (cases j)
    case 0
    with b eq show ?thesis
      by (auto simp: render_warning_def severity_text_def split: option.splits)
  next
    case (Suc j')
    with Cons.prems(2) have "j' < length ws" by simp
    from Cons.IH [OF bs' this] Suc eq show ?thesis by simp
  qed
qed

lemma render_all_total:
  "list_all has_severity ws \<Longrightarrow> \<exists>bs. render_all up ws k = Inr bs"
proof (induction ws arbitrary: k)
  case Nil
  then show ?case by simp
next
  case (Cons w ws)
  from Cons.prems have "list_all has_severity ws" by simp
  from Cons.IH [OF this, of "Suc k"] obtain bs where "render_all up ws (Suc k) = Inr bs"
    by blast
  moreover from Cons.prems obtain s where "severity w = Some s"
    by (auto simp: has_severity_def)
  ultimately show ?case by (simp add: render_warning_def)
qed

lemma render_all_throws:
  "\<not> list_all has_severity ws \<Longrightarrow> render_all up ws k = Inl Type_error"
proof (induction ws arbitrary: k)
  case Nil
  then show ?case by simp
next
  case (Cons w ws)
  show ?case
  proof (cases "severity w")
    case None
    then show ?thesis by (simp add: render_warning_def)
  next
    case (Some s)
    then have "has_severity w" by (simp add: has_severity_def)
    with Cons.prems have "\<not> list_all has_severity ws" by simp
    from Cons.IH [OF this, of "Suc k"] Some show ?thesis by (simp add: render_warning_def)
  qed
qed

lemma on_response_warnings:
  assumes "surface r = Some c" and "success d" and "warnings d = Some ws" and "ws \<noteq> []"
    and "render_all up ws 0 = Inr bs"
  shows "on_response up (Body d) r =
           ((updateRowStyling r (Some ws))\<lparr>surface := Some (c\<lparr>html := Blocks bs, shown := Display_block\<rparr>)\<rparr>, False)"
  using assms
  by (simp add: on_response_def try_block_def displayWarnings_def no_warnings_def warnings_of_def)

lemma surface_updateRowStyling [simp]: "surface (updateRowStyling r ws) = surface r"
  by (simp add: updateRowStyling_def Let_def)

lemma name_value_updateRowStyling [simp]: "name_value (updateRowStyling r ws) = name_value r"
  by (simp add: updateRowStyling_def Let_def)

lemma doses_value_updateRowStyling [simp]: "doses_value (updateRowStyling r ws) = doses_value r"
  by (simp add: updateRowStyling_def Let_def)

text \<open>
  C2 (as amended). The code never sorts: for every applied successful result with at
  least one warning, each with a string severity, the surface shows one block per warning
  in exactly the order in which the service delivered them, block \<open>k\<close> built from
  warning \<open>k\<close>. So warnings of equal severity keep the service's order, and the list is
  severity-descending only when the service sent it so.
\<close>

theorem c2_rendered_in_service_order:
  assumes "surface r = Some c" and "success d" and "warnings d = Some ws" and "ws \<noteq> []"
    and "list_all has_severity ws"
  shows "length (rendered_blocks (fst (on_response up (Body d) r))) = length ws \<and>
         (\<forall>k<length ws. rendered_blocks (fst (on_response up (Body d) r)) ! k
              = block_of up (severity_text (ws ! k)) (ws ! k) k)"
proof -
  from render_all_total [OF assms(5)] obtain bs where bs: "render_all up ws 0 = Inr bs"
    by blast
  have shown: "rendered_blocks (fst (on_response up (Body d) r)) = bs"
    using on_response_warnings [OF assms(1-4) bs] by (simp add: rendered_blocks_def)
  have "\<forall>k<length ws. bs ! k = block_of up (severity_text (ws ! k)) (ws ! k) k"
    using render_all_nth [OF bs] by simp
  with shown render_all_length [OF bs] show ?thesis by simp
qed


text \<open>
  In the sample the service delivers the low warning before the high one, and block 1 is
  the high warning.
\<close>

theorem c2_rendered_in_service_order_witness:
  "length (rendered_blocks (fst (on_response ascii_upper
       (Body \<lparr>success = True, safe = False, warnings = Some [sample_low, sample_high]\<rparr>) loading_row))) = 2
   \<and> rendered_blocks (fst (on_response ascii_upper
       (Body \<lparr>success = True, safe = False, warnings = Some [sample_low, sample_high]\<rparr>) loading_row)) ! 1
       = block_of ascii_upper (js ''high'') sample_high 1"
  using c2_rendered_in_service_order
    [of loading_row "\<lparr>html = Loader, shown = Display_block\<rparr>"
        "\<lparr>success = True, safe = False, warnings = Some [sample_low, sample_high]\<rparr>"
        "[sample_low, sample_high]" ascii_upper]
  by (simp add: loading_row_def has_severity_def severity_text_def sample_low_def sample_high_def)

text \<open>
  C2 as stated fails: delivered low before high, the warnings are rendered low before
  high, which is not severity-descending.
\<close>

theorem c2_not_sorted_counterexample:
  "\<not> severity_descending (rendered_blocks (fst (on_response ascii_upper
       (Body \<lparr>success = True, safe = False, warnings = Some [sample_low, sample_high]\<rparr>) loading_row)))"
  by (simp add: severity_descending_def rendered_blocks_def on_response_def try_block_def
      displayWarnings_def no_warnings_def warnings_of_def render_warning_def block_of_def
      severity_rank_def loading_row_def sample_low_def sample_high_def)

subsection \<open>Row styling\<close>

lemma class_add_after_remove:
  "x \<in> set names \<Longrightarrow> class_add x (class_remove names cl) = class_remove names cl @ [x]"
  by (simp add: class_add_def class_remove_def)

lemma class_remove_add_remove:
  "x \<in> set names \<Longrightarrow> class_remove names (class_add x (class_remove names cl)) = class_remove names cl"
  by (simp add: class_add_after_remove) (simp add: class_remove_def)

lemma class_list_updateRowStyling:
  "class_list (updateRowStyling r ws) =
     class_remove severity_classes (class_list r) @
       [if no_warnings ws then (js ''is-safe'')
        else if list_ex (\<lambda>w. severity w = Some (js ''high'')) (warnings_of ws) then (js ''has-high-warning'')
        else if list_ex (\<lambda>w. severity w = Some (js ''moderate'')) (warnings_of ws) then (js ''has-moderate-warning'')
        else (js ''has-low-warning'')]"
  by (simp add: updateRowStyling_def Let_def class_add_after_remove severity_classes_def)

text \<open>
  C10. For every applied successful result with at least one warning (each with a string
  severity), the row's class list is its former class list without the three severity
  classes and the safe class, followed by one tier class: high if any warning is high,
  otherwise moderate if any is moderate, otherwise low.
\<close>

theorem c10_row_tier_is_highest_severity:
  assumes "surface r = Some c" and "success d" and "warnings d = Some ws" and "ws \<noteq> []"
    and "list_all has_severity ws"
  shows "class_list (fst (on_response up (Body d) r)) =
           filter (\<lambda>x. x \<notin> set [js ''has-high-warning'', js ''has-moderate-warning'', js ''has-low-warning'', js ''is-safe''])
             (class_list r) @
           [if (\<exists>w \<in> set ws. severity w = Some (js ''high'')) then (js ''has-high-warning'')
            else if (\<exists>w \<in> set ws. severity w = Some (js ''moderate'')) then (js ''has-moderate-warning'')
            else (js ''has-low-warning'')]"
proof -
  from render_all_total [OF assms(5)] obtain bs where bs: "render_all up ws 0 = Inr bs"
    by blast
  have "class_list (fst (on_response up (Body d) r)) = class_list (updateRowStyling r (Some ws))"
    using on_response_warnings [OF assms(1-4) bs] by simp
  also have "\<dots> = class_remove severity_classes (class_list r) @
       [if list_ex (\<lambda>w. severity w = Some (js ''high'')) ws then (js ''has-high-warning'')
        else if list_ex (\<lambda>w. severity w = Some (js ''moderate'')) ws then (js ''has-moderate-warning'')
        else (js ''has-low-warning'')]"
    using assms(4) by (simp add: class_list_updateRowStyling no_warnings_def warnings_of_def)
  finally show ?thesis
    by (simp add: class_remove_def severity_classes_def list_ex_iff)
qed

text \<open>
  A row that carried the moderate and the safe class gets a low and a high warning: both
  old classes go and the high tier is set.
\<close>

theorem c10_row_tier_is_highest_severity_witness:
  "class_list (fst (on_response ascii_upper
       (Body \<lparr>success = True, safe = False, warnings = Some [sample_low, sample_high]\<rparr>)
       (loading_row\<lparr>class_list := [js ''has-moderate-warning'', js ''medication-row'', js ''is-safe'']\<rparr>)))
     = [js ''medication-row'', js ''has-high-warning'']"
  using c10_row_tier_is_highest_severity
    [of "loading_row\<lparr>class_list := [js ''has-moderate-warning'', js ''medication-row'', js ''is-safe'']\<rparr>"
        "\<lparr>html = Loader, shown = Display_block\<rparr>"
        "\<lparr>success = True, safe = False, warnings = Some [sample_low, sample_high]\<rparr>"
        "[sample_low, sample_high]" ascii_upper]
  by (simp add: loading_row_def has_severity_def sample_low_def sample_high_def)

text \<open>
  C3. A successful result with no warnings that is not flagged safe should leave the row
  without severity or safe styling. \<open>updateRowStyling\<close> is not given the safe flag and
  treats every empty warning list as safe: the surface is hidden and no error is shown,
  but the row gets the class \<open>is-safe\<close>.
\<close>

theorem c3_unknown_medication_styled_safe:
  "on_response ascii_upper (Body \<lparr>success = True, safe = False, warnings = Some []\<rparr>) loading_row
     = (loading_row\<lparr>surface := Some \<lparr>html = Loader, shown = Display_none\<rparr>,
                    class_list := [js ''medication-row'', js ''is-safe'']\<rparr>, False)"
  by (simp add: on_response_def try_block_def displayWarnings_def no_warnings_def
      updateRowStyling_def class_remove_def class_add_def severity_classes_def loading_row_def)


subsection \<open>Failures\<close>

lemma try_block_throws:
  assumes "failed out" and "\<not> refused out"
  shows "\<exists>e. try_block up out c r = Inl e"
proof (cases out)
  case (Body d)
  with assms have s: "success d" and nw: "\<not> no_warnings (warnings d)"
    and bad: "\<not> list_all has_severity (warnings_of (warnings d))"
    by (auto simp: failed_def refused_def)
  from render_all_throws [OF bad] s nw Body show ?thesis
    by (simp add: try_block_def displayWarnings_def)
qed (simp_all add: try_block_def)

text \<open>
  C7 (as amended). When \<open>fetch\<close> rejects, the body is not JSON or is \<open>null\<close>, the
  \<open>success\<close> flag is falsy, or a warning of a successful result has no string severity,
  the surface's content is replaced by one error notice (\<open>Error checking medication\<close>
  when the body was read and \<open>success\<close> is falsy, \<open>Unable to check medication\<close>
  otherwise), nothing else of the row changes, its class list included, and no timer is
  set. The continuation has no other way out: every exception of the \<open>try\<close> block ends in
  the \<open>catch\<close>.
\<close>

theorem c7_failure_shows_notice_keeps_styling:
  assumes "surface r = Some c" and "failed out"
  shows "on_response up out r =
           (r\<lparr>surface := Some (c\<lparr>html := Error_notice
                (if refused out then ''Error checking medication'' else ''Unable to check medication'')\<rparr>)\<rparr>,
            False)"
proof (cases "refused out")
  case True
  then obtain d where "out = Body d" and "\<not> success d"
    by (auto simp: refused_def split: outcome.splits)
  with assms(1) True show ?thesis
    by (simp add: on_response_def try_block_def)
next
  case False
  from try_block_throws [OF assms(2) False] obtain e where "try_block up out c r = Inl e"
    by blast
  with assms(1) False show ?thesis
    by (simp add: on_response_def)
qed

text \<open>
  The request of a row that showed a high warning fails in the network: the notice
  replaces the loader and the class list stays.
\<close>

theorem c7_failure_shows_notice_keeps_styling_witness:
  "on_response ascii_upper Fetch_rejected (loading_row\<lparr>class_list := [js ''medication-row'', js ''has-high-warning'']\<rparr>)
     = (loading_row\<lparr>surface := Some \<lparr>html = Error_notice ''Unable to check medication'', shown = Display_block\<rparr>,
                    class_list := [js ''medication-row'', js ''has-high-warning'']\<rparr>, False)"
  using c7_failure_shows_notice_keeps_styling
    [of "loading_row\<lparr>class_list := [js ''medication-row'', js ''has-high-warning'']\<rparr>"
        "\<lparr>html = Loader, shown = Display_block\<rparr>" Fetch_rejected ascii_upper]
  by (simp add: loading_row_def failed_def refused_def)

text \<open>
  C7 as stated fails for a malformed response: a body with a truthy \<open>success\<close> and no
  \<open>warnings\<close> field is taken as a result without warnings. The surface is hidden with
  no notice in it, and the row's high-warning class is replaced by \<open>is-safe\<close>.
\<close>

theorem c7_missing_warnings_counterexample:
  "on_response ascii_upper (Body \<lparr>success = True, safe = False, warnings = None\<rparr>)
       (loading_row\<lparr>class_list := [js ''medication-row'', js ''has-high-warning'']\<rparr>)
     = (loading_row\<lparr>surface := Some \<lparr>html = Loader, shown = Display_none\<rparr>,
                    class_list := [js ''medication-row'', js ''is-safe'']\<rparr>, False)"
  by (simp add: on_response_def try_block_def displayWarnings_def no_warnings_def
      updateRowStyling_def class_remove_def class_add_def severity_classes_def loading_row_def)

subsection \<open>Applying a result twice\<close>

lemma displayWarnings_twice:
  "displayWarnings up c ws s = Inr (c', h) \<Longrightarrow> displayWarnings up c' ws s = Inr (c', h)"
  by (auto simp: displayWarnings_def split: if_splits sum.splits)

lemma displayWarnings_throws_anywhere:
  "displayWarnings up c ws s = Inl e \<Longrightarrow> displayWarnings up c' ws s = Inl e"
  by (auto simp: displayWarnings_def split: if_splits sum.splits)

lemma updateRowStyling_surface_update:
  "updateRowStyling (r\<lparr>surface := x\<rparr>) ws = (updateRowStyling r ws)\<lparr>surface := x\<rparr>"
  by (simp add: updateRowStyling_def Let_def)

lemma updateRowStyling_twice:
  "updateRowStyling (updateRowStyling r ws) ws = updateRowStyling r ws"
proof -
  have "class_list (updateRowStyling (updateRowStyling r ws) ws) = class_list (updateRowStyling r ws)"
    by (simp add: class_list_updateRowStyling class_remove_def severity_classes_def)
  then show ?thesis
    by (simp add: updateRowStyling_def Let_def)
qed

lemma try_block_twice:
  assumes "try_block up out c r = Inr (c', r', h)"
  shows "try_block up out c' (r'\<lparr>surface := Some c'\<rparr>) = Inr (c', r'\<lparr>surface := Some c'\<rparr>, h)"
proof (cases out)
  case (Body d)
  show ?thesis
  proof (cases "success d")
    case True
    with assms Body obtain
      dw: "displayWarnings up c (warnings d) (safe d) = Inr (c', h)" and
      r': "r' = updateRowStyling r (warnings d)"
      by (auto simp: try_block_def split: sum.splits)
    from displayWarnings_twice [OF dw] True Body r' show ?thesis
      by (simp add: try_block_def updateRowStyling_surface_update updateRowStyling_twice)
  next
    case False
    with assms Body show ?thesis
      by (auto simp: try_block_def)
  qed
qed (use assms in \<open>simp_all add: try_block_def\<close>)

lemma try_block_throws_anywhere:
  "try_block up out c r = Inl e \<Longrightarrow> try_block up out c' r' = Inl e"
  by (cases out)
    (auto simp: try_block_def split: if_splits sum.splits dest: displayWarnings_throws_anywhere
      [where c' = c'])

lemma on_response_twice: "on_response up out (fst (on_response up out r)) = on_response up out r"
proof (cases "surface r")
  case None
  then show ?thesis by (simp add: on_response_def)
next
  case (Some c)
  show ?thesis
  proof (cases "try_block up out c r")
    case (Inl e)
    from try_block_throws_anywhere [OF Inl] Some Inl show ?thesis
      by (simp add: on_response_def)
  next
    case (Inr x)
    then obtain c' r' h where x: "try_block up out c r = Inr (c', r', h)"
      by (cases x) auto
    from try_block_twice [OF x] Some x show ?thesis
      by (simp add: on_response_def)
  qed
qed

lemma one_severity_class:
  "length (filter (\<lambda>x. x \<in> set severity_classes) (class_list (updateRowStyling r ws))) = 1"
  by (simp add: class_list_updateRowStyling class_remove_def) (simp add: severity_classes_def)

text \<open>
  C8. Applying the same result to a row twice in succession gives the row (surface
  content, visibility and class list) that applying it once gives; the code has no
  generation, so the result alone is what is applied. Each successful apply removes the
  three severity classes and the safe class before it adds one, so the row then carries
  exactly one of the four.
\<close>

theorem c8_apply_twice_is_apply_once:
  "on_response up out (fst (on_response up out r)) = on_response up out r \<and>
   (\<forall>c d. surface r = Some c \<and> out = Body d \<and> success d \<and> \<not> failed out \<longrightarrow>
      length (filter (\<lambda>x. x \<in> set severity_classes) (class_list (fst (on_response up out r)))) = 1)"
proof (intro conjI allI impI)
  show "on_response up out (fst (on_response up out r)) = on_response up out r"
    by (rule on_response_twice)
next
  fix c d
  assume h: "surface r = Some c \<and> out = Body d \<and> success d \<and> \<not> failed out"
  then have "\<exists>c' hide. displayWarnings up c (warnings d) (safe d) = Inr (c', hide)"
    using render_all_total [of "warnings_of (warnings d)" up 0]
    by (auto simp: failed_def displayWarnings_def split: sum.splits)
  then obtain c' hide where "displayWarnings up c (warnings d) (safe d) = Inr (c', hide)"
    by blast
  with h have "class_list (fst (on_response up out r)) = class_list (updateRowStyling r (warnings d))"
    by (simp add: on_response_def try_block_def)
  then show "length (filter (\<lambda>x. x \<in> set severity_classes) (class_list (fst (on_response up out r)))) = 1"
    by (simp add: one_severity_class)
qed

text \<open>
  A row that carried the moderate class gets a high warning, twice: the second apply
  changes nothing, and the high class is the only severity class.
\<close>

theorem c8_apply_twice_is_apply_once_witness:
  "on_response ascii_upper (Body \<lparr>success = True, safe = False, warnings = Some [sample_high]\<rparr>)
     (fst (on_response ascii_upper (Body \<lparr>success = True, safe = False, warnings = Some [sample_high]\<rparr>)
        (loading_row\<lparr>class_list := [js ''has-moderate-warning'']\<rparr>)))
   = (loading_row\<lparr>surface := Some \<lparr>html = Blocks [block_of ascii_upper (js ''high'') sample_high 0], shown = Display_block\<rparr>,
                  class_list := [js ''has-high-warning'']\<rparr>, False)
   \<and> length (filter (\<lambda>x. x \<in> set severity_classes)
        (class_list (fst (on_response ascii_upper (Body \<lparr>success = True, safe = False, warnings = Some [sample_high]\<rparr>)
           (loading_row\<lparr>class_list := [js ''has-moderate-warning'']\<rparr>))))) = 1"
  using c8_apply_twice_is_apply_once
    [of ascii_upper "Body \<lparr>success = True, safe = False, warnings = Some [sample_high]\<rparr>"
        "loading_row\<lparr>class_list := [js ''has-moderate-warning'']\<rparr>"]
  by (simp add: on_response_def try_block_def displayWarnings_def no_warnings_def warnings_of_def
      render_warning_def updateRowStyling_def class_remove_def class_add_def severity_classes_def
      loading_row_def sample_high_def failed_def has_severity_def)

subsection \<open>An emptied field\<close>

lemma container_overwrite:
  "(c::container)\<lparr>html := x, shown := y\<rparr> = \<lparr>html = x, shown = y\<rparr>"
  by (cases c) simp

text \<open>
  C9. A check on a field whose trimmed value is empty leaves the row's surface empty and
  hidden, without passing through the loading state; no request is sent or left in
  flight, no timer is touched, and nothing else on the page changes.
\<close>

theorem c9_empty_field_clears_without_request:
  assumes "i < length (rows p)" and "name_value (rows p ! i) = Some v" and "trim v = []"
  shows "surface (rows (checkMedicationRealtime i p) ! i) = Some \<lparr>html = Blank, shown = Display_none\<rparr>
       \<and> sent (checkMedicationRealtime i p) = sent p
       \<and> inflight (checkMedicationRealtime i p) = inflight p
       \<and> timers (checkMedicationRealtime i p) = timers p
       \<and> rows (checkMedicationRealtime i p)
           = (rows p)[i := (rows p ! i)\<lparr>surface := Some \<lparr>html = Blank, shown = Display_none\<rparr>\<rparr>]"
  using assms by (simp add: checkMedicationRealtime_def Let_def container_overwrite)

text \<open>
  The user leaves the field of a row holding only a no-break space and a space.
\<close>

theorem c9_empty_field_clears_without_request_witness:
  "surface (rows (checkMedicationRealtime 0
       (loaded ascii_engine [loading_row\<lparr>name_value := Some [160, 32]\<rparr>] None None)) ! 0)
     = Some \<lparr>html = Blank, shown = Display_none\<rparr>
   \<and> sent (checkMedicationRealtime 0
       (loaded ascii_engine [loading_row\<lparr>name_value := Some [160, 32]\<rparr>] None None)) = []"
  using c9_empty_field_clears_without_request
    [of 0 "loaded ascii_engine [loading_row\<lparr>name_value := Some [160, 32]\<rparr>] None None" "[160, 32]"]
  by (simp add: loaded_def initializeMedicationChecker_def page_at_load_def loading_row_def
      trim_def is_space_def)

subsection \<open>Timers and the invariant of the debounce closure\<close>



























lemma blur_once: "length (closures p) = 1 \<Longrightarrow> step (Blur i) p = checkMedicationRealtime i p"
  by simp



















lemma same_checks_clock: "same_checks (p\<lparr>clock := c\<rparr>) p"
  by (simp add: same_checks_def input_values_def)












subsection \<open>The shared debounce timer\<close>




subsection \<open>A burst of typing\<close>





subsection \<open>Responses that arrive out of order\<close>










end
